theory Spec2Isabelle
  imports Main "HOL-Library.Word" "HOL-Library.Signed_Division"
begin

section \<open>Values of the C++ program\<close>

text \<open>
  The classifier of \<^verbatim>\<open>ConwayClassifier.cpp\<close> computes with \<^verbatim>\<open>int\<close>, \<^verbatim>\<open>size_t\<close>,
  \<^verbatim>\<open>std::string\<close> and a \<^verbatim>\<open>bool*\<close> buffer.
  \<^item> \<^verbatim>\<open>int\<close> is a 32-bit word: \<open>+\<close>, \<open>-\<close>, \<open>*\<close> wrap around, \<open>sint\<close> reads the
    two's complement value, \<open><s\<close> is the signed comparison.
  \<^item> \<^verbatim>\<open>size_t\<close> is a \<open>nat\<close> below \<open>2 ^ 64\<close>; the one subtraction the code does on it
    is written with its wrap-around (\<open>size_minus\<close>).
  \<^item> A C++ exception is a value \<open>Inl e\<close> of the result. \<open>OutOfRange\<close> and
    \<open>InvalidArgument\<close> are \<^verbatim>\<open>std::out_of_range\<close> and \<^verbatim>\<open>std::invalid_argument\<close>, the two
    exceptions the standard library throws on the paths modelled here. The code itself
    throws nothing and catches nothing.
  \<^item> \<open>UndefinedBehaviour\<close> is no exception: it marks the executions for which C++ defines
    no result (an access outside the allocated buffer, a read of an uninitialised
    variable, a remainder by zero). Nothing is claimed about what the program does there.
  \<^item> \<^verbatim>\<open>malloc\<close> is taken to succeed, the bytes of the files are taken to be ASCII
    (\<^verbatim>\<open>std::isdigit\<close> is applied to a plain \<^verbatim>\<open>char\<close>), and \<^verbatim>\<open>genNum\<close> to be below the
    largest \<^verbatim>\<open>int\<close> (the loop of \<^verbatim>\<open>populateIStreamVec\<close> counts up to it).
\<close>

type_synonym cint = "32 word"

datatype error = OutOfRange | InvalidArgument | UndefinedBehaviour

fun bind_err :: "error + 'a \<Rightarrow> ('a \<Rightarrow> error + 'b) \<Rightarrow> error + 'b" where
  "bind_err (Inl e) f = Inl e"
| "bind_err (Inr v) f = f v"

definition size_minus :: "nat \<Rightarrow> nat \<Rightarrow> nat" where
  "size_minus a b = (if b \<le> a then a - b else a + 2 ^ 64 - b)"

subsection \<open>Strings\<close>

text \<open>
  \<^verbatim>\<open>str.find(d)\<close>: the least position at which \<open>d\<close> starts in \<open>str\<close>; the empty
  string is found at position 0 of every string, the empty one too. \<open>None\<close> is
  \<^verbatim>\<open>std::string::npos\<close>.
\<close>

fun find_str :: "string \<Rightarrow> string \<Rightarrow> nat option" where
  "find_str [] d = (if d = [] then Some 0 else None)"
| "find_str (c # cs) d =
     (if take (length d) (c # cs) = d then Some 0 else map_option Suc (find_str cs d))"

text \<open>
  \<^verbatim>\<open>str.substr(pos, n)\<close> throws \<^verbatim>\<open>std::out_of_range\<close> when \<open>pos\<close> is beyond the
  length, and otherwise returns at most \<open>n\<close> characters from \<open>pos\<close> on.
\<close>

definition substr :: "string \<Rightarrow> nat \<Rightarrow> nat \<Rightarrow> error + string" where
  "substr s pos n = (if length s < pos then Inl OutOfRange else Inr (take n (drop pos s)))"

text \<open>\<^verbatim>\<open>isspace\<close> and \<^verbatim>\<open>isdigit\<close> in the C locale.\<close>

definition isspace_c :: "char \<Rightarrow> bool" where
  "isspace_c c = (c \<in> set [CHR '' '', CHR 0x09, CHR 0x0A, CHR 0x0B, CHR 0x0C, CHR 0x0D])"

definition isdigit_c :: "char \<Rightarrow> bool" where
  "isdigit_c c = (c \<in> set ''0123456789'')"

text \<open>\<^verbatim>\<open>c - '0'\<close>, for a digit \<open>c\<close>.\<close>

definition digit_val :: "char \<Rightarrow> nat" where
  "digit_val c = of_char c - of_char (CHR ''0'')"

definition decimal :: "string \<Rightarrow> int" where
  "decimal ds = foldl (\<lambda>a c. 10 * a + int (digit_val c)) 0 ds"

text \<open>
  \<^verbatim>\<open>std::stoi(s)\<close> (base 10): leading white space is skipped, a sign is optional, then
  the longest run of digits is read and whatever follows is ignored. No digit at all
  throws \<^verbatim>\<open>std::invalid_argument\<close>; a value that does not fit \<^verbatim>\<open>int\<close> throws
  \<^verbatim>\<open>std::out_of_range\<close>.
\<close>

definition stoi :: "string \<Rightarrow> error + cint" where
  "stoi s =
     (let t = dropWhile isspace_c s;
          neg = (t \<noteq> [] \<and> hd t = CHR ''-'');
          u = (if t \<noteq> [] \<and> (hd t = CHR ''-'' \<or> hd t = CHR ''+'') then tl t else t);
          ds = takeWhile isdigit_c u
      in if ds = [] then Inl InvalidArgument
         else let v = (if neg then - decimal ds else decimal ds)
              in if v < - (2 ^ 31) \<or> 2 ^ 31 - 1 < v then Inl OutOfRange
                 else Inr (word_of_int v))"

text \<open>
  \<^verbatim>\<open>stream >> var\<close> on an \<^verbatim>\<open>istringstream\<close>, as a function of the characters left in
  the stream and the current value of \<open>var\<close>: white space is skipped and the next run
  of other characters is stored in \<open>var\<close>. When only white space is left the extraction
  fails, \<open>var\<close> keeps its value, and every later extraction fails as well.
\<close>

definition extract_str :: "string \<Rightarrow> string \<Rightarrow> string \<times> string" where
  "extract_str strm var =
     (let r = dropWhile isspace_c strm
      in if r = [] then ([], var)
         else (dropWhile (\<lambda>c. \<not> isspace_c c) r, takeWhile (\<lambda>c. \<not> isspace_c c) r))"

subsection \<open>Header parsing: \<^verbatim>\<open>split\<close>, \<^verbatim>\<open>readPos\<close>, \<^verbatim>\<open>readWidthHeight\<close>\<close>

text \<open>
  \<^verbatim>\<open>index != str.length() - 1\<close> is a comparison of \<^verbatim>\<open>size_t\<close> values: for the empty
  string the right-hand side is \<open>2 ^ 64 - 1\<close>, not \<open>-1\<close>.
\<close>

definition split :: "string \<Rightarrow> string \<Rightarrow> bool \<Rightarrow> error + string" where
  "split str delimiter firstStr =
     (case find_str str delimiter of
        None \<Rightarrow> Inr ''''
      | Some index \<Rightarrow>
          if firstStr \<and> index \<noteq> 0 then substr str 0 index
          else if index \<noteq> size_minus (length str) 1
            then substr str (index + 1) (size_minus (size_minus (length str) index) 1)
          else Inr '''')"

definition posQualifierLen :: nat where
  "posQualifierLen = 4"

text \<open>
  \<^verbatim>\<open>posStream >> posStr >> posStr\<close> leaves the second token of the line in \<open>posStr\<close>
  (the first one when the line has only one, the empty string when it has none).
  The two \<^verbatim>\<open>std::stoi\<close> calls are the arguments of one constructor call, here and
  in \<^verbatim>\<open>readWidthHeight\<close>; C++ leaves their order open. The model runs them left to
  right; the order only decides which exception is seen when both calls throw, and
  different ones.
\<close>

definition readPos :: "string \<Rightarrow> error + (cint \<times> cint)" where
  "readPos firstLine =
     (let (s1, p1) = extract_str firstLine [];
          (s2, posStr) = extract_str s1 p1
      in bind_err (substr posStr posQualifierLen (size_minus (length posStr) posQualifierLen))
           (\<lambda>posStr'.
              bind_err (split posStr' '','' True) (\<lambda>a.
              bind_err (stoi a) (\<lambda>px.
              bind_err (split posStr' '','' False) (\<lambda>b.
              bind_err (stoi b) (\<lambda>py. Inr (px, py)))))))"

definition readWidthHeight :: "string \<Rightarrow> error + (cint \<times> cint)" where
  "readWidthHeight secLine =
     (let (s1, x1) = extract_str secLine [];
          (s2, x2) = extract_str s1 x1;
          (s3, xInfo) = extract_str s2 x2;
          (s4, y1) = extract_str s3 [];
          (s5, y2) = extract_str s4 y1;
          (s6, yInfo) = extract_str s5 y2
      in bind_err (split xInfo '','' True) (\<lambda>a.
         bind_err (stoi a) (\<lambda>w.
         bind_err (split yInfo '','' True) (\<lambda>b.
         bind_err (stoi b) (\<lambda>h. Inr (w, h))))))"

subsection \<open>Input streams\<close>

text \<open>
  An \<^verbatim>\<open>ifstream\<close> is the content of its file, \<open>None\<close> when the file could not be
  opened (every read of such a stream fails and leaves its target unchanged).
  \<^verbatim>\<open>std::getline\<close> reads up to the next line feed, which it consumes; at the end of the
  stream it fails and the line stays empty. \<open>header_lines\<close> gives the first line, the
  second line and the bytes after them. Both passes over the streams start at byte 0:
  \<^verbatim>\<open>calcBoardSpecs\<close> rewinds each stream with \<^verbatim>\<open>seekg(0, std::ios::beg)\<close>. The rewind
  takes effect on a stream that has not failed, and \<^verbatim>\<open>calcBoardSpecs\<close> returns only when
  every stream has given a second line that is not empty, that is, when none has failed.
\<close>

type_synonym ifstream = "string option"

definition getline :: "string \<Rightarrow> string \<times> string" where
  "getline s = (takeWhile (\<lambda>c. c \<noteq> CHR 0x0A) s, drop 1 (dropWhile (\<lambda>c. c \<noteq> CHR 0x0A) s))"

definition header_lines :: "ifstream \<Rightarrow> string \<times> string \<times> string" where
  "header_lines f =
     (case f of
        None \<Rightarrow> ([], [], [])
      | Some content \<Rightarrow>
          (let (firstLine, rest1) = getline content;
               (secLine, rest2) = getline rest1
           in (firstLine, secLine, rest2)))"

section \<open>The classifier object\<close>

text \<open>
  The fields the member functions of \<^verbatim>\<open>ConwayClassifier.cpp\<close> read or write. The fields
  \<^verbatim>\<open>x\<close> and \<^verbatim>\<open>y\<close> of the class (the top left corner) are \<open>originX\<close> and
  \<open>originY\<close> here. \<open>gameBoard\<close> is the allocated buffer: its length is the number of
  \<^verbatim>\<open>bool\<close> cells \<^verbatim>\<open>malloc\<close> was asked for.
\<close>

record ConwayClassifier =
  originX :: cint
  originY :: cint
  width :: cint
  height :: cint
  classNum :: "16 word"
  gameBoard :: "bool list"
  boardSize :: "64 word"

subsection \<open>\<^verbatim>\<open>calcBoardSpecs\<close>\<close>

text \<open>
  The accumulator of the loop is \<open>None\<close> while \<^verbatim>\<open>firstFile\<close> is true (the four
  variables \<^verbatim>\<open>minX, maxX, minY, maxY\<close> are uninitialised then) and
  \<open>Some (minX, maxX, minY, maxY)\<close> afterwards. With no stream at all the function reads
  the uninitialised variables.
\<close>

definition calcBoardSpecs_update ::
  "(cint \<times> cint \<times> cint \<times> cint) option \<Rightarrow> cint \<times> cint \<Rightarrow> cint \<times> cint \<Rightarrow> cint \<times> cint \<times> cint \<times> cint"
where
  "calcBoardSpecs_update acc minInfo maxPr =
     (let tempMinX = fst minInfo;
          tempMinY = snd minInfo;
          tempMaxX = tempMinX + fst maxPr;
          tempMaxY = tempMinY + snd maxPr
      in case acc of
           None \<Rightarrow> (tempMinX, tempMaxX, tempMinY, tempMaxY)
         | Some (minX, maxX, minY, maxY) \<Rightarrow>
             (if tempMinX <s minX then tempMinX else minX,
              if maxX <s tempMaxX then tempMaxX else maxX,
              if tempMinY <s minY then tempMinY else minY,
              if maxY <s tempMaxY then tempMaxY else maxY))"

text \<open>
  \<open>read_header\<close> is the head of the loop body: the two \<^verbatim>\<open>std::getline\<close> calls, then
  \<^verbatim>\<open>readPos\<close> on the first line and \<^verbatim>\<open>readWidthHeight\<close> on the second.
\<close>

definition read_header :: "ifstream \<Rightarrow> error + ((cint \<times> cint) \<times> (cint \<times> cint))" where
  "read_header is =
     (case readPos (fst (header_lines is)) of
        Inl e \<Rightarrow> Inl e
      | Inr minInfo \<Rightarrow>
          (case readWidthHeight (fst (snd (header_lines is))) of
             Inl e \<Rightarrow> Inl e
           | Inr maxPr \<Rightarrow> Inr (minInfo, maxPr)))"

fun calcBoardSpecs_loop ::
  "ifstream list \<Rightarrow> (cint \<times> cint \<times> cint \<times> cint) option
     \<Rightarrow> error + (cint \<times> cint \<times> cint \<times> cint) option"
where
  "calcBoardSpecs_loop [] acc = Inr acc"
| "calcBoardSpecs_loop (is # dataFiles) acc =
     (case read_header is of
        Inl e \<Rightarrow> Inl e
      | Inr (minInfo, maxPr) \<Rightarrow>
          calcBoardSpecs_loop dataFiles (Some (calcBoardSpecs_update acc minInfo maxPr)))"

definition calcBoardSpecs :: "ConwayClassifier \<Rightarrow> ifstream list \<Rightarrow> error + ConwayClassifier" where
  "calcBoardSpecs st dataFiles =
     (case calcBoardSpecs_loop dataFiles None of
        Inl e \<Rightarrow> Inl e
      | Inr None \<Rightarrow> Inl UndefinedBehaviour
      | Inr (Some (minX, maxX, minY, maxY)) \<Rightarrow>
          Inr (st\<lparr>originX := minX, originY := minY, width := maxX - minX, height := maxY - minY\<rparr>))"

subsection \<open>The board store\<close>

definition get1DIndex :: "ConwayClassifier \<Rightarrow> cint \<Rightarrow> cint \<Rightarrow> cint \<Rightarrow> cint" where
  "get1DIndex st gen xCoord yCoord =
     (let newX = xCoord - originX st;
          newY = yCoord - originY st;
          retVal = (gen * width st * height st) + (newY * width st) + newX
      in retVal)"

text \<open>
  \<^verbatim>\<open>this->gameBoard[i]\<close> is defined for the offsets of the allocated buffer only. The
  accessors themselves check nothing.
\<close>

definition in_buffer :: "ConwayClassifier \<Rightarrow> cint \<Rightarrow> bool" where
  "in_buffer st i = (0 \<le> sint i \<and> sint i < int (length (gameBoard st)))"

definition getCellVal :: "ConwayClassifier \<Rightarrow> cint \<Rightarrow> cint \<Rightarrow> cint \<Rightarrow> error + bool" where
  "getCellVal st gen xCoord yCoord =
     (let i = get1DIndex st gen xCoord yCoord
      in if in_buffer st i then Inr (gameBoard st ! nat (sint i)) else Inl UndefinedBehaviour)"

definition setCellVal ::
  "ConwayClassifier \<Rightarrow> cint \<Rightarrow> cint \<Rightarrow> cint \<Rightarrow> bool \<Rightarrow> error + ConwayClassifier"
where
  "setCellVal st gen xCoord yCoord val =
     (let i = get1DIndex st gen xCoord yCoord
      in if in_buffer st i then Inr (st\<lparr>gameBoard := (gameBoard st)[nat (sint i) := val]\<rparr>)
         else Inl UndefinedBehaviour)"

text \<open>
  \<^verbatim>\<open>(genNum + 1) * width * height\<close> is computed in \<^verbatim>\<open>int\<close> and then widened. A size
  that is not positive leaves a buffer without a cell.
\<close>

definition initializeGameBoard :: "ConwayClassifier \<Rightarrow> cint \<Rightarrow> ConwayClassifier" where
  "initializeGameBoard st genNum =
     (let n = (genNum + 1) * width st * height st
      in st\<lparr>boardSize := scast n, gameBoard := replicate (nat (sint n)) False\<rparr>)"

subsection \<open>\<^verbatim>\<open>fillBoard\<close>\<close>

text \<open>
  \<open>fillBoard_step\<close> is the body of the inner \<^verbatim>\<open>for\<close> loop for the character \<open>c\<close>,
  \<open>fillBoard_for\<close> runs it \<open>repCount\<close> times, \<open>fillBoard_while\<close> is the
  \<^verbatim>\<open>while (is->get(c))\<close> loop over the bytes after the two header lines, and
  \<open>fillBoard_files\<close> the loop over the streams. When a digit is the last byte of the
  stream, the second \<^verbatim>\<open>get\<close> fails and \<open>c\<close> stays the digit. The console output of
  the function is left out.
\<close>

definition fillBoard_step ::
  "ConwayClassifier \<Rightarrow> cint \<Rightarrow> cint \<Rightarrow> char \<Rightarrow> cint \<times> cint
     \<Rightarrow> error + (ConwayClassifier \<times> cint \<times> cint)"
where
  "fillBoard_step st genNum posX c cur =
     (let currentX = fst cur; currentY = snd cur
      in if c = CHR ''o'' \<or> c = CHR ''b'' then
           (if c = CHR ''o'' then
              bind_err (setCellVal st genNum currentX currentY True)
                (\<lambda>st'. Inr (st', currentX + 1, currentY))
            else Inr (st, currentX + 1, currentY))
         else if c = CHR ''$'' then Inr (st, posX, currentY + 1)
         else Inr (st, currentX, currentY))"

fun fillBoard_for ::
  "nat \<Rightarrow> ConwayClassifier \<Rightarrow> cint \<Rightarrow> cint \<Rightarrow> char \<Rightarrow> cint \<times> cint
     \<Rightarrow> error + (ConwayClassifier \<times> cint \<times> cint)"
where
  "fillBoard_for 0 st genNum posX c cur = Inr (st, cur)"
| "fillBoard_for (Suc repCount) st genNum posX c cur =
     (case fillBoard_step st genNum posX c cur of
        Inl e \<Rightarrow> Inl e
      | Inr (st', cur') \<Rightarrow> fillBoard_for repCount st' genNum posX c cur')"

fun fillBoard_while ::
  "string \<Rightarrow> ConwayClassifier \<Rightarrow> cint \<Rightarrow> cint \<Rightarrow> cint \<times> cint
     \<Rightarrow> error + (ConwayClassifier \<times> cint \<times> cint)"
where
  "fillBoard_while [] st genNum posX cur = Inr (st, cur)"
| "fillBoard_while [c] st genNum posX cur =
     (if isdigit_c c then fillBoard_for (digit_val c) st genNum posX c cur
      else fillBoard_for 1 st genNum posX c cur)"
| "fillBoard_while (c # c' # cs) st genNum posX cur =
     (if isdigit_c c then
        (case fillBoard_for (digit_val c) st genNum posX c' cur of
           Inl e \<Rightarrow> Inl e
         | Inr (st', cur') \<Rightarrow> fillBoard_while cs st' genNum posX cur')
      else
        (case fillBoard_for 1 st genNum posX c cur of
           Inl e \<Rightarrow> Inl e
         | Inr (st', cur') \<Rightarrow> fillBoard_while (c' # cs) st' genNum posX cur'))"

fun fillBoard_files :: "ifstream list \<Rightarrow> ConwayClassifier \<Rightarrow> cint \<Rightarrow> error + ConwayClassifier" where
  "fillBoard_files [] st genNum = Inr st"
| "fillBoard_files (is # dataFiles) st genNum =
     (case readPos (fst (header_lines is)) of
        Inl e \<Rightarrow> Inl e
      | Inr posInfo \<Rightarrow>
          (case fillBoard_while (snd (snd (header_lines is))) st genNum (fst posInfo) posInfo of
             Inl e \<Rightarrow> Inl e
           | Inr (st', cur') \<Rightarrow> fillBoard_files dataFiles st' (genNum + 1)))"

definition fillBoard :: "ConwayClassifier \<Rightarrow> ifstream list \<Rightarrow> error + ConwayClassifier" where
  "fillBoard st dataFiles = fillBoard_files dataFiles st 0"

subsection \<open>\<^verbatim>\<open>classification\<close>\<close>

text \<open>
  The branch for \<^verbatim>\<open>classNum == 5\<close> holds a \<^verbatim>\<open>ToDo\<close> comment and no statement: on
  both paths the function returns the field.
\<close>

definition classification :: "ConwayClassifier \<Rightarrow> 16 word" where
  "classification st = (if classNum st = 5 then classNum st else classNum st)"

subsection \<open>\<^verbatim>\<open>printGameBoard\<close>\<close>

text \<open>
  The remainder of C++ truncates towards zero (\<open>smod\<close> on the signed values). In
  \<^verbatim>\<open>i - index + 1 % this->width == 0\<close> the operator \<^verbatim>\<open>%\<close> binds tighter than
  \<^verbatim>\<open>+\<close> and \<^verbatim>\<open>-\<close>: the test is \<open>i - index + (1 % width) = 0\<close>. The output stream is
  the string of the characters written to it; \<^verbatim>\<open>std::endl\<close> writes a line feed.
  The loop counter cannot overflow: it is below the bound when it is incremented.
\<close>

definition c_rem :: "cint \<Rightarrow> cint \<Rightarrow> cint" where
  "c_rem a b = word_of_int (sint a smod sint b)"

function printGameBoard_loop ::
  "ConwayClassifier \<Rightarrow> cint \<Rightarrow> cint \<Rightarrow> char \<Rightarrow> char \<Rightarrow> cint \<Rightarrow> string \<Rightarrow> error + string"
where
  "printGameBoard_loop st index genLen onChar offChar i os =
     (if i <s index + genLen then
        (if in_buffer st i \<and> width st \<noteq> 0 then
           (let os1 = os @ [if gameBoard st ! nat (sint i) then onChar else offChar];
                os2 = (if i - index + c_rem 1 (width st) = 0 then os1 @ [CHR 0x0A] else os1)
            in printGameBoard_loop st index genLen onChar offChar (i + 1) os2)
         else Inl UndefinedBehaviour)
      else Inr os)"
  by pat_completeness auto
termination
proof (relation "measure (\<lambda>(st, index, genLen, onChar, offChar, i, os).
                            nat (sint (index + genLen) - sint i))")
  show "wf (measure (\<lambda>(st, index, genLen, onChar, offChar, i, os).
                       nat (sint (index + genLen) - sint i)))"
    by simp
next
  fix st :: ConwayClassifier and index genLen :: cint and onChar offChar :: char and i :: cint
    and os x xa :: string
  assume a: "i <s index + genLen"
  then have lt: "sint i < sint (index + genLen)"
    by (simp add: word_sless_alt)
  have "sint (index + genLen) < 2 ^ 31"
    using sint_lt [of "index + genLen"] by simp
  moreover have "- (2 ^ 31) \<le> sint i"
    using sint_ge [of i] by simp
  ultimately have "signed_take_bit 31 (sint i + 1) = sint i + 1"
    using lt by (intro signed_take_bit_int_eq_self) auto
  then have "sint (i + 1) = sint i + 1"
    by (simp add: sint_word_ariths)
  with lt show "((st, index, genLen, onChar, offChar, i + 1, x),
                 st, index, genLen, onChar, offChar, i, os)
       \<in> measure (\<lambda>(st, index, genLen, onChar, offChar, i, os).
                     nat (sint (index + genLen) - sint i))"
    by simp
qed

definition printGameBoard :: "ConwayClassifier \<Rightarrow> cint \<Rightarrow> char \<Rightarrow> char \<Rightarrow> error + string" where
  "printGameBoard st genNum onChar offChar =
     (let index = get1DIndex st genNum (originX st) (originY st);
          genLen = width st * height st
      in case printGameBoard_loop st index genLen onChar offChar index [] of
           Inl e \<Rightarrow> Inl e
         | Inr os \<Rightarrow> Inr (os @ [CHR 0x0A]))"

subsection \<open>The constructor\<close>

text \<open>
  The data directory is the function that gives, for the generation \<open>i\<close>, the content
  of the file \<^verbatim>\<open>dataPath/dataPath_i.rle\<close>, or \<open>None\<close> when there is no such file.
  \<^verbatim>\<open>populateIStreamVec\<close> opens the files of the generations \<open>0 .. genNum\<close>. Before the
  constructor body runs no field holds a value; \<open>unconstructed\<close> stands for that state,
  and each of its fields is written before it is read.
\<close>

definition populateIStreamVec :: "(nat \<Rightarrow> string option) \<Rightarrow> cint \<Rightarrow> ifstream list" where
  "populateIStreamVec dataDir genNum = map dataDir [0 ..< nat (sint genNum + 1)]"

definition unconstructed :: ConwayClassifier where
  "unconstructed =
     \<lparr>originX = 0, originY = 0, width = 0, height = 0, classNum = 0, gameBoard = [],
      boardSize = 0\<rparr>"

definition ConwayClassifier_new :: "(nat \<Rightarrow> string option) \<Rightarrow> cint \<Rightarrow> error + ConwayClassifier" where
  "ConwayClassifier_new dataDir genNum =
     (let st0 = unconstructed\<lparr>classNum := 5\<rparr>;
          fileStreams = populateIStreamVec dataDir genNum
      in case calcBoardSpecs st0 fileStreams of
           Inl e \<Rightarrow> Inl e
         | Inr st1 \<Rightarrow> fillBoard (initializeGameBoard st1 genNum) fileStreams)"

section \<open>Notions of the specification\<close>

subsection \<open>Occurrences of a delimiter\<close>


subsection \<open>The board and its valid coordinates\<close>

text \<open>
  \<open>board_allocated st generationCount\<close>: the envelope is not empty and the buffer holds
  \<open>generationCount \<times> width \<times> height\<close> cells, a number that fits \<^verbatim>\<open>int\<close>, as after
  \<^verbatim>\<open>initializeGameBoard (generationCount - 1)\<close>. \<open>valid_triple\<close> is the valid
  coordinate space of the specification, and \<open>flat_offset\<close> its index formula
  \<open>gen * width * height + (y - originY) * width + (x - originX)\<close> over the integers.
\<close>

definition board_allocated :: "ConwayClassifier \<Rightarrow> int \<Rightarrow> bool" where
  "board_allocated st generationCount =
     (0 < sint (width st) \<and> 0 < sint (height st) \<and>
      generationCount * sint (width st) * sint (height st) < 2 ^ 31 \<and>
      length (gameBoard st) = nat (generationCount * sint (width st) * sint (height st)))"

definition valid_triple :: "ConwayClassifier \<Rightarrow> int \<Rightarrow> cint \<Rightarrow> cint \<Rightarrow> cint \<Rightarrow> bool" where
  "valid_triple st generationCount gen xCoord yCoord =
     (0 \<le> sint gen \<and> sint gen < generationCount \<and>
      sint (originX st) \<le> sint xCoord \<and> sint xCoord < sint (originX st) + sint (width st) \<and>
      sint (originY st) \<le> sint yCoord \<and> sint yCoord < sint (originY st) + sint (height st))"

definition flat_offset :: "ConwayClassifier \<Rightarrow> cint \<Rightarrow> cint \<Rightarrow> cint \<Rightarrow> int" where
  "flat_offset st gen xCoord yCoord =
     sint gen * sint (width st) * sint (height st)
       + (sint yCoord - sint (originY st)) * sint (width st)
       + (sint xCoord - sint (originX st))"

text \<open>
  \<open>only_cells_written st st'\<close>: the state \<open>st'\<close> differs from \<open>st\<close> in the values of
  cells at most. \<open>cell_chars\<close> is the text of a run of cells.
\<close>

definition only_cells_written :: "ConwayClassifier \<Rightarrow> ConwayClassifier \<Rightarrow> bool" where
  "only_cells_written st st' =
     (originX st' = originX st \<and> originY st' = originY st \<and>
      width st' = width st \<and> height st' = height st \<and>
      classNum st' = classNum st \<and> boardSize st' = boardSize st \<and>
      length (gameBoard st') = length (gameBoard st))"

definition cell_chars :: "char \<Rightarrow> char \<Rightarrow> bool list \<Rightarrow> string" where
  "cell_chars onChar offChar cells = map (\<lambda>b. if b then onChar else offChar) cells"

subsection \<open>The envelope of a sequence of headers\<close>

text \<open>
  A header is the position and the frame size read from the two header lines of a
  generation. \<open>frame_box\<close> is its \<open>(minX, minY, minX + width, minY + height)\<close>,
  \<open>box_union\<close> the componentwise signed minimum and maximum, and \<open>envelope_spec\<close> the
  envelope as the specification words it: the first generation seeds the accumulator,
  the remaining ones are folded into it, and the result is the origin with
  \<open>globalMaxX - globalMinX\<close> and \<open>globalMaxY - globalMinY\<close>.
\<close>

definition frame_box :: "(cint \<times> cint) \<times> (cint \<times> cint) \<Rightarrow> cint \<times> cint \<times> cint \<times> cint" where
  "frame_box hdr =
     (fst (fst hdr), snd (fst hdr), fst (fst hdr) + fst (snd hdr), snd (fst hdr) + snd (snd hdr))"

definition smin :: "cint \<Rightarrow> cint \<Rightarrow> cint" where
  "smin a b = (if sint a \<le> sint b then a else b)"

definition smax :: "cint \<Rightarrow> cint \<Rightarrow> cint" where
  "smax a b = (if sint a \<le> sint b then b else a)"

definition box_union ::
  "cint \<times> cint \<times> cint \<times> cint \<Rightarrow> cint \<times> cint \<times> cint \<times> cint \<Rightarrow> cint \<times> cint \<times> cint \<times> cint"
where
  "box_union g f =
     (case g of (globalMinX, globalMinY, globalMaxX, globalMaxY) \<Rightarrow>
      case f of (minX, minY, maxX, maxY) \<Rightarrow>
        (smin globalMinX minX, smin globalMinY minY, smax globalMaxX maxX, smax globalMaxY maxY))"

definition envelope_spec ::
  "((cint \<times> cint) \<times> (cint \<times> cint)) list \<Rightarrow> (cint \<times> cint \<times> cint \<times> cint) option"
where
  "envelope_spec hdrs =
     (case hdrs of
        [] \<Rightarrow> None
      | h # rest \<Rightarrow>
          (case foldl box_union (frame_box h) (map frame_box rest) of
             (globalMinX, globalMinY, globalMaxX, globalMaxY) \<Rightarrow>
               Some (globalMinX, globalMinY, globalMaxX - globalMinX, globalMaxY - globalMinY)))"

subsection \<open>The tokens of the header lines\<close>

text \<open>
  \<open>posStr_of\<close>, \<open>xInfo_of\<close> and \<open>yInfo_of\<close> are the values of the variables
  \<^verbatim>\<open>posStr\<close>, \<^verbatim>\<open>xInfo\<close> and \<^verbatim>\<open>yInfo\<close> after the extractions of \<^verbatim>\<open>readPos\<close> and
  \<^verbatim>\<open>readWidthHeight\<close>. \<open>mentions_pos\<close> holds for a line in which the qualifier of the
  position token stands anywhere. \<open>is_exception\<close> holds for a result that is one of the
  two C++ exceptions. \<open>leading_int\<close> is the decimal integer a text begins with, after
  white space and one optional sign, if it begins with one; \<open>begins_with_int\<close> holds
  when there is such an integer and it fits \<^verbatim>\<open>int\<close>.
\<close>

definition posStr_of :: "string \<Rightarrow> string" where
  "posStr_of firstLine =
     (let (s1, p1) = extract_str firstLine [];
          (s2, posStr) = extract_str s1 p1
      in posStr)"

definition xInfo_of :: "string \<Rightarrow> string" where
  "xInfo_of secLine =
     (let (s1, x1) = extract_str secLine [];
          (s2, x2) = extract_str s1 x1;
          (s3, xInfo) = extract_str s2 x2
      in xInfo)"

definition yInfo_of :: "string \<Rightarrow> string" where
  "yInfo_of secLine =
     (let (s1, x1) = extract_str secLine [];
          (s2, x2) = extract_str s1 x1;
          (s3, xInfo) = extract_str s2 x2;
          (s4, y1) = extract_str s3 [];
          (s5, y2) = extract_str s4 y1;
          (s6, yInfo) = extract_str s5 y2
      in yInfo)"

definition mentions_pos :: "string \<Rightarrow> bool" where
  "mentions_pos firstLine = (find_str firstLine ''pos='' \<noteq> None \<or> find_str firstLine ''Pos='' \<noteq> None)"

definition is_exception :: "error + 'a \<Rightarrow> bool" where
  "is_exception r = (case r of Inl e \<Rightarrow> e = OutOfRange \<or> e = InvalidArgument | Inr v \<Rightarrow> False)"

definition leading_int :: "string \<Rightarrow> int option" where
  "leading_int a =
     (let t = dropWhile isspace_c a;
          negative = (t \<noteq> [] \<and> hd t = CHR ''-'');
          signed = (t \<noteq> [] \<and> (hd t = CHR ''-'' \<or> hd t = CHR ''+''));
          ds = takeWhile isdigit_c (if signed then tl t else t)
      in if ds = [] then None else Some (if negative then - decimal ds else decimal ds))"

definition begins_with_int :: "string \<Rightarrow> bool" where
  "begins_with_int a =
     (case leading_int a of
        None \<Rightarrow> False
      | Some v \<Rightarrow> - (2 ^ 31) \<le> v \<and> v \<le> 2 ^ 31 - 1)"

subsection \<open>Sample inputs\<close>

text \<open>
  \<open>two_generations\<close> is a directory with the files of the generations 0 and 1, and
  \<open>two_generations_board\<close> the classifier built from it. \<open>run_of_twelve\<close> holds one
  generation whose body is \<^verbatim>\<open>12o!\<close>; \<open>bytes_after_end\<close> one whose body goes on after
  the \<^verbatim>\<open>!\<close>; \<open>no_comma_header\<close> one whose first line has no position token.
  \<open>huge_envelope\<close> holds two generations without a live cell whose frame is 65536
  columns by 65536 rows, and \<open>huge_board\<close> is the classifier built from it.
\<close>

definition two_generations :: "nat \<Rightarrow> string option" where
  "two_generations i =
     (if i = 0 then Some ''#CXRLE Pos=-1,-1\<newline>x = 3, y = 2, rule = B3/S23\<newline>bo$2o!\<newline>''
      else if i = 1 then Some ''#CXRLE Pos=0,-1\<newline>x = 3, y = 3, rule = B3/S23\<newline>3o$$b2o!\<newline>''
      else None)"

definition two_generations_board :: ConwayClassifier where
  "two_generations_board =
     \<lparr>originX = - 1, originY = - 1, width = 4, height = 3, classNum = 5,
      gameBoard =
        [False, True, False, False,
         True, True, False, False,
         False, False, False, False,
         False, True, True, True,
         False, False, False, False,
         False, False, True, True],
      boardSize = 24\<rparr>"

definition run_of_twelve :: "nat \<Rightarrow> string option" where
  "run_of_twelve i =
     (if i = 0 then Some ''#CXRLE Pos=0,0\<newline>x = 12, y = 1, rule = B3/S23\<newline>12o!\<newline>''
      else None)"

definition bytes_after_end :: "nat \<Rightarrow> string option" where
  "bytes_after_end i =
     (if i = 0 then Some ''#CXRLE Pos=0,0\<newline>x = 3, y = 1, rule = B3/S23\<newline>o!bo\<newline>''
      else None)"

definition no_comma_header :: "nat \<Rightarrow> string option" where
  "no_comma_header i =
     (if i = 0 then Some ''#CXRLE Gen=5\<newline>x = 3, y = 2, rule = B3/S23\<newline>bo$2o!\<newline>'' else None)"

definition huge_envelope :: "nat \<Rightarrow> string option" where
  "huge_envelope i =
     (if i < 2 then Some ''#CXRLE Pos=0,0\<newline>x = 65536, y = 65536, rule = B3/S23\<newline>!\<newline>''
      else None)"

definition huge_board :: ConwayClassifier where
  "huge_board =
     \<lparr>originX = 0, originY = 0, width = 65536, height = 65536, classNum = 5, gameBoard = [],
      boardSize = 0\<rparr>"

section \<open>Evaluation\<close>

text \<open>The definitions a concrete run unfolds.\<close>

lemmas parse_defs = read_header_def header_lines_def getline_def readPos_def readWidthHeight_def
  extract_str_def isspace_c_def substr_def posQualifierLen_def size_minus_def split_def stoi_def
  isdigit_c_def decimal_def digit_val_def

lemmas run_defs = ConwayClassifier_new_def calcBoardSpecs_def calcBoardSpecs_update_def
  populateIStreamVec_def unconstructed_def initializeGameBoard_def fillBoard_def
  fillBoard_step_def setCellVal_def get1DIndex_def in_buffer_def word_sless_alt Let_def
  upt_rec eval_nat_numeral

lemma two_generations_classifier:
  "ConwayClassifier_new two_generations 1 = Inr two_generations_board"
  by (simp add: two_generations_def two_generations_board_def parse_defs run_defs)

section \<open>\<^verbatim>\<open>split\<close>\<close>









section \<open>The index of a cell\<close>

lemma sint_of_int_range:
  "- (2 ^ 31) \<le> k \<Longrightarrow> k < 2 ^ 31 \<Longrightarrow> sint (word_of_int k :: cint) = k"
  by (simp add: sint_sbintrunc' signed_take_bit_int_eq_self)

lemma get1DIndex_of_int: "get1DIndex st g xc yc = word_of_int (flat_offset st g xc yc)"
  by (simp add: get1DIndex_def flat_offset_def)

lemma mixed_radix_bounds:
  fixes G W H X Y n :: int
  assumes "0 \<le> G" "G < n" "0 < W" "0 < H" "0 \<le> X" "X < W" "0 \<le> Y" "Y < H"
  shows "0 \<le> G * W * H + Y * W + X" and "G * W * H + Y * W + X < n * W * H"
proof -
  show "0 \<le> G * W * H + Y * W + X"
    using assms by simp
  have "0 \<le> W * H" using assms by simp
  moreover have "G \<le> n - 1" using assms by simp
  ultimately have "G * (W * H) \<le> (n - 1) * (W * H)"
    by (rule mult_right_mono [rotated])
  then have a: "G * W * H \<le> n * W * H - W * H"
    by (simp add: algebra_simps)
  have "Y \<le> H - 1" using assms by simp
  then have "Y * W \<le> (H - 1) * W"
    using assms by (intro mult_right_mono) auto
  then have b: "Y * W \<le> W * H - W"
    by (simp add: algebra_simps)
  from a b assms show "G * W * H + Y * W + X < n * W * H"
    by linarith
qed

lemma mixed_radix_inj:
  fixes G W H X Y G' X' Y' :: int
  assumes "0 < W" "0 < H" "0 \<le> X" "X < W" "0 \<le> Y" "Y < H" "0 \<le> X'" "X' < W" "0 \<le> Y'" "Y' < H"
    and eq: "G * W * H + Y * W + X = G' * W * H + Y' * W + X'"
  shows "G = G' \<and> Y = Y' \<and> X = X'"
proof -
  have e1: "(G * H + Y) * W + X = (G' * H + Y') * W + X'"
    using eq by (simp add: algebra_simps)
  have "((G * H + Y) * W + X) mod W = X" using assms by simp
  moreover have "((G' * H + Y') * W + X') mod W = X'" using assms by simp
  ultimately have x: "X = X'" using e1 by simp
  have "((G * H + Y) * W + X) div W = G * H + Y" using assms by simp
  moreover have "((G' * H + Y') * W + X') div W = G' * H + Y'" using assms by simp
  ultimately have e2: "G * H + Y = G' * H + Y'" using e1 by simp
  have "(G * H + Y) mod H = Y" using assms by simp
  moreover have "(G' * H + Y') mod H = Y'" using assms by simp
  ultimately have y: "Y = Y'" using e2 by simp
  have "(G * H + Y) div H = G" using assms by simp
  moreover have "(G' * H + Y') div H = G'" using assms by simp
  ultimately have "G = G'" using e2 by simp
  with x y show ?thesis by simp
qed

lemma valid_offset:
  assumes "board_allocated st n" and "valid_triple st n g xc yc"
  shows "0 \<le> flat_offset st g xc yc"
    and "flat_offset st g xc yc < n * sint (width st) * sint (height st)"
    and "sint (get1DIndex st g xc yc) = flat_offset st g xc yc"
    and "in_buffer st (get1DIndex st g xc yc)"
proof -
  have lo: "0 \<le> flat_offset st g xc yc"
    unfolding flat_offset_def
    using assms by (intro mixed_radix_bounds(1) [where n = n]) (auto simp: board_allocated_def valid_triple_def)
  have hi: "flat_offset st g xc yc < n * sint (width st) * sint (height st)"
    unfolding flat_offset_def
    using assms by (intro mixed_radix_bounds(2)) (auto simp: board_allocated_def valid_triple_def)
  from assms(1) have fit: "n * sint (width st) * sint (height st) < 2 ^ 31"
    and len: "length (gameBoard st) = nat (n * sint (width st) * sint (height st))"
    by (simp_all add: board_allocated_def)
  have s: "sint (get1DIndex st g xc yc) = flat_offset st g xc yc"
    unfolding get1DIndex_of_int using lo hi fit by (intro sint_of_int_range) auto
  show "0 \<le> flat_offset st g xc yc" by (fact lo)
  show "flat_offset st g xc yc < n * sint (width st) * sint (height st)" by (fact hi)
  show "sint (get1DIndex st g xc yc) = flat_offset st g xc yc" by (fact s)
  show "in_buffer st (get1DIndex st g xc yc)"
    using lo hi len by (simp add: in_buffer_def s)
qed

subsection \<open>What the constructor establishes\<close>

lemma only_cells_written_refl: "only_cells_written st st"
  by (simp add: only_cells_written_def)

lemma only_cells_written_trans:
  "only_cells_written st st1 \<Longrightarrow> only_cells_written st1 st2 \<Longrightarrow> only_cells_written st st2"
  by (simp add: only_cells_written_def)

lemma setCellVal_frame:
  "setCellVal st g xc yc v = Inr st' \<Longrightarrow> only_cells_written st st'"
  by (auto simp: setCellVal_def only_cells_written_def Let_def split: if_splits)

lemma fillBoard_step_frame:
  "fillBoard_step st g posX c cur = Inr (st', cur') \<Longrightarrow> only_cells_written st st'"
  by (cases "setCellVal st g (fst cur) (snd cur) True")
    (auto simp: fillBoard_step_def Let_def only_cells_written_refl split: if_splits
          dest: setCellVal_frame)

lemma fillBoard_for_frame:
  "fillBoard_for n st g posX c cur = Inr (st', cur') \<Longrightarrow> only_cells_written st st'"
proof (induction n arbitrary: st cur)
  case 0
  then show ?case by (simp add: only_cells_written_refl)
next
  case (Suc n)
  then obtain st1 cur1 where s: "fillBoard_step st g posX c cur = Inr (st1, cur1)"
    and r: "fillBoard_for n st1 g posX c cur1 = Inr (st', cur')"
    by (auto split: sum.splits)
  from fillBoard_step_frame [OF s] Suc.IH [OF r] show ?case
    by (rule only_cells_written_trans)
qed

lemma fillBoard_while_frame:
  "fillBoard_while cs st g posX cur = Inr (st', cur') \<Longrightarrow> only_cells_written st st'"
proof (induction cs st g posX cur rule: fillBoard_while.induct)
  case (1 st genNum posX cur)
  then show ?case by (simp add: only_cells_written_refl)
next
  case (2 c st genNum posX cur)
  then show ?case
    by (auto simp del: fillBoard_for.simps One_nat_def split: if_splits dest: fillBoard_for_frame)
next
  case (3 c c' cs st genNum posX cur)
  show ?case
  proof (cases "isdigit_c c")
    case True
    with "3.prems" obtain st1 cur1
      where f: "fillBoard_for (digit_val c) st genNum posX c' cur = Inr (st1, cur1)"
        and r: "fillBoard_while cs st1 genNum posX cur1 = Inr (st', cur')"
      by (auto simp del: fillBoard_for.simps One_nat_def split: sum.splits prod.splits)
    from fillBoard_for_frame [OF f] "3.IH"(1) [OF True f refl r]
    show ?thesis by (rule only_cells_written_trans)
  next
    case False
    with "3.prems" obtain st1 cur1
      where f: "fillBoard_for 1 st genNum posX c cur = Inr (st1, cur1)"
        and r: "fillBoard_while (c' # cs) st1 genNum posX cur1 = Inr (st', cur')"
      by (auto simp del: fillBoard_for.simps One_nat_def split: sum.splits prod.splits)
    from fillBoard_for_frame [OF f] "3.IH"(2) [OF False f refl r]
    show ?thesis by (rule only_cells_written_trans)
  qed
qed

lemma fillBoard_files_frame:
  "fillBoard_files fs st g = Inr st' \<Longrightarrow> only_cells_written st st'"
proof (induction fs arbitrary: st g)
  case Nil
  then show ?case by (simp add: only_cells_written_refl)
next
  case (Cons f fs)
  then obtain posInfo st1 cur1
    where w: "fillBoard_while (snd (snd (header_lines f))) st g (fst posInfo) posInfo = Inr (st1, cur1)"
      and r: "fillBoard_files fs st1 (g + 1) = Inr st'"
    by (auto split: sum.splits prod.splits)
  from fillBoard_while_frame [OF w] Cons.IH [OF r] show ?case
    by (rule only_cells_written_trans)
qed

lemma constructed_fields:
  assumes "ConwayClassifier_new dataDir genNum = Inr st"
  shows "classNum st = 5"
    and "length (gameBoard st) = nat (sint ((genNum + 1) * width st * height st))"
proof -
  from assms obtain st1
    where c: "calcBoardSpecs (unconstructed\<lparr>classNum := 5\<rparr>) (populateIStreamVec dataDir genNum) = Inr st1"
      and f: "fillBoard (initializeGameBoard st1 genNum) (populateIStreamVec dataDir genNum) = Inr st"
    by (auto simp: ConwayClassifier_new_def Let_def split: sum.splits)
  from c have c5: "classNum st1 = 5"
    by (auto simp: calcBoardSpecs_def split: sum.splits option.splits)
  have w: "only_cells_written (initializeGameBoard st1 genNum) st"
    using f by (simp add: fillBoard_def fillBoard_files_frame)
  with c5 show "classNum st = 5"
    by (simp add: only_cells_written_def initializeGameBoard_def Let_def)
  from w show "length (gameBoard st) = nat (sint ((genNum + 1) * width st * height st))"
    by (simp add: only_cells_written_def initializeGameBoard_def Let_def)
qed



subsection \<open>Round trip and injectivity\<close>

text \<open>
  Where the number of cells fits \<^verbatim>\<open>int\<close> and the buffer holds them, \<^verbatim>\<open>setCellVal\<close>
  followed by \<^verbatim>\<open>getCellVal\<close> at the same valid triple returns the value written, and
  \<^verbatim>\<open>get1DIndex\<close> is injective on the valid triples.
\<close>

lemma index_round_trip:
  assumes "board_allocated st generationCount"
    and "valid_triple st generationCount gen xCoord yCoord"
  shows "(\<exists>st'. setCellVal st gen xCoord yCoord v = Inr st' \<and>
                getCellVal st' gen xCoord yCoord = Inr v) \<and>
         (\<forall>gen' xCoord' yCoord'.
            valid_triple st generationCount gen' xCoord' yCoord' \<and>
            get1DIndex st gen' xCoord' yCoord' = get1DIndex st gen xCoord yCoord
            \<longrightarrow> gen' = gen \<and> xCoord' = xCoord \<and> yCoord' = yCoord)"
proof (rule conjI)
  let ?i = "get1DIndex st gen xCoord yCoord"
  note vo = valid_offset [OF assms]
  let ?st' = "st\<lparr>gameBoard := (gameBoard st)[nat (sint ?i) := v]\<rparr>"
  have set: "setCellVal st gen xCoord yCoord v = Inr ?st'"
    using vo(4) by (simp add: setCellVal_def)
  have idx: "get1DIndex ?st' gen xCoord yCoord = ?i"
    by (simp add: get1DIndex_def)
  have inb: "in_buffer ?st' ?i"
    using vo(4) by (simp add: in_buffer_def)
  have "nat (sint ?i) < length (gameBoard st)"
    using vo(4) by (auto simp: in_buffer_def)
  then have "getCellVal ?st' gen xCoord yCoord = Inr v"
    using inb by (simp add: getCellVal_def idx)
  with set show "\<exists>st'. setCellVal st gen xCoord yCoord v = Inr st' \<and>
                getCellVal st' gen xCoord yCoord = Inr v"
    by blast
next
  show "\<forall>gen' xCoord' yCoord'.
            valid_triple st generationCount gen' xCoord' yCoord' \<and>
            get1DIndex st gen' xCoord' yCoord' = get1DIndex st gen xCoord yCoord
            \<longrightarrow> gen' = gen \<and> xCoord' = xCoord \<and> yCoord' = yCoord"
  proof (intro allI impI)
    fix gen' xCoord' yCoord'
    assume h: "valid_triple st generationCount gen' xCoord' yCoord' \<and>
              get1DIndex st gen' xCoord' yCoord' = get1DIndex st gen xCoord yCoord"
    note vo = valid_offset [OF assms]
    note vo' = valid_offset [OF assms(1) conjunct1 [OF h]]
    from h vo(3) vo'(3) have "flat_offset st gen' xCoord' yCoord' = flat_offset st gen xCoord yCoord"
      by simp
    then have "sint gen' = sint gen \<and>
               sint yCoord' - sint (originY st) = sint yCoord - sint (originY st) \<and>
               sint xCoord' - sint (originX st) = sint xCoord - sint (originX st)"
      unfolding flat_offset_def
      using assms h by (intro mixed_radix_inj [where W = "sint (width st)" and H = "sint (height st)"])
        (auto simp: board_allocated_def valid_triple_def)
    then have "sint gen' = sint gen" "sint xCoord' = sint xCoord" "sint yCoord' = sint yCoord"
      by simp_all
    then show "gen' = gen \<and> xCoord' = xCoord \<and> yCoord' = yCoord"
      by (auto intro: signed_word_eqI)
  qed
qed

text \<open>
  C5. The code does not do what the claim says: \<^verbatim>\<open>get1DIndex\<close> and the buffer size are
  computed in \<^verbatim>\<open>int\<close> (the header declares both \<^verbatim>\<open>long long int\<close>). With two
  generations of 65536 by 65536 cells the product \<open>gen * width * height\<close> wraps around:
  the valid triples \<open>(0, 0, 0)\<close> and \<open>(1, 0, 0)\<close> have the same flat offset, the size
  \<open>2 * 65536 * 65536\<close> is computed as 0, and the accessors at a valid triple are outside
  the buffer.
\<close>

theorem index_wraps_on_huge_board:
  "ConwayClassifier_new huge_envelope 1 = Inr huge_board \<and>
   valid_triple huge_board 2 0 0 0 \<and> valid_triple huge_board 2 1 0 0 \<and>
   get1DIndex huge_board 0 0 0 = get1DIndex huge_board 1 0 0 \<and>
   setCellVal huge_board 1 0 0 True = Inl UndefinedBehaviour \<and>
   getCellVal huge_board 1 0 0 = Inl UndefinedBehaviour"
  by (simp add: huge_envelope_def huge_board_def parse_defs ConwayClassifier_new_def
      calcBoardSpecs_def calcBoardSpecs_update_def populateIStreamVec_def unconstructed_def
      initializeGameBoard_def fillBoard_def fillBoard_step_def setCellVal_def get1DIndex_def
      in_buffer_def word_sless_alt Let_def upt_rec valid_triple_def getCellVal_def)

subsection \<open>One column left of the origin\<close>







section \<open>\<^verbatim>\<open>calcBoardSpecs\<close>: the envelope\<close>

lemma calcBoardSpecs_update_Some:
  "calcBoardSpecs_update (Some (a, c, b, d)) minInfo maxPr =
     (case box_union (a, b, c, d) (frame_box (minInfo, maxPr)) of (p, q, r, s) \<Rightarrow> (p, r, q, s))"
  by (auto simp: calcBoardSpecs_update_def box_union_def frame_box_def smin_def smax_def
      word_sless_alt Let_def intro: signed_word_eqI)

lemma calcBoardSpecs_update_None:
  "calcBoardSpecs_update None minInfo maxPr =
     (case frame_box (minInfo, maxPr) of (p, q, r, s) \<Rightarrow> (p, r, q, s))"
  by (simp add: calcBoardSpecs_update_def frame_box_def Let_def)

lemma calcBoardSpecs_loop_Some:
  "map read_header dataFiles = map Inr hdrs \<Longrightarrow>
   calcBoardSpecs_loop dataFiles (Some (a, c, b, d)) =
     Inr (Some (case foldl box_union (a, b, c, d) (map frame_box hdrs) of
                  (p, q, r, s) \<Rightarrow> (p, r, q, s)))"
proof (induction dataFiles arbitrary: hdrs a b c d)
  case Nil
  then show ?case by simp
next
  case (Cons f fs)
  then obtain h hs where hd: "hdrs = h # hs" and rh: "read_header f = Inr h"
    and rest: "map read_header fs = map Inr hs"
    by (cases hdrs) auto
  obtain minInfo maxPr where h: "h = (minInfo, maxPr)" by (cases h)
  obtain p q r s where bu: "box_union (a, b, c, d) (frame_box h) = (p, q, r, s)"
    by (cases "box_union (a, b, c, d) (frame_box h)") auto
  have "calcBoardSpecs_update (Some (a, c, b, d)) minInfo maxPr = (p, r, q, s)"
    using bu h by (simp add: calcBoardSpecs_update_Some)
  with rh h have "calcBoardSpecs_loop (f # fs) (Some (a, c, b, d)) =
                  calcBoardSpecs_loop fs (Some (p, r, q, s))"
    by simp
  also have "\<dots> = Inr (Some (case foldl box_union (p, q, r, s) (map frame_box hs) of
                  (p, q, r, s) \<Rightarrow> (p, r, q, s)))"
    by (rule Cons.IH [OF rest])
  finally show ?case using hd bu by simp
qed

text \<open>
  C6. For every non-empty sequence of streams whose headers are read as \<open>hdrs\<close>,
  \<^verbatim>\<open>calcBoardSpecs\<close> stores the envelope of the specification: the accumulator seeded
  with the box of the first generation, the componentwise minimum and maximum over the
  remaining ones, the origin \<open>(globalMinX, globalMinY)\<close>, and the differences as width
  and height.
\<close>

theorem calcBoardSpecs_envelope:
  assumes "dataFiles \<noteq> []" and "map read_header dataFiles = map Inr hdrs"
  shows "\<exists>ex ey ew eh.
           envelope_spec hdrs = Some (ex, ey, ew, eh) \<and>
           calcBoardSpecs st dataFiles =
             Inr (st\<lparr>originX := ex, originY := ey, width := ew, height := eh\<rparr>)"
proof -
  from assms obtain f fs h hs where df: "dataFiles = f # fs" and hd: "hdrs = h # hs"
    and rh: "read_header f = Inr h" and rest: "map read_header fs = map Inr hs"
    by (cases dataFiles; cases hdrs) auto
  obtain minInfo maxPr where h: "h = (minInfo, maxPr)" by (cases h)
  obtain a b c d where fb: "frame_box h = (a, b, c, d)"
    by (cases "frame_box h") auto
  obtain p q r s where fo: "foldl box_union (a, b, c, d) (map frame_box hs) = (p, q, r, s)"
    by (cases "foldl box_union (a, b, c, d) (map frame_box hs)") auto
  have "calcBoardSpecs_update None minInfo maxPr = (a, c, b, d)"
    using fb h by (simp add: calcBoardSpecs_update_None)
  with rh h df have "calcBoardSpecs_loop dataFiles None = calcBoardSpecs_loop fs (Some (a, c, b, d))"
    by simp
  also have "\<dots> = Inr (Some (p, r, q, s))"
    using calcBoardSpecs_loop_Some [OF rest, of a c b d] fo by simp
  finally have "calcBoardSpecs st dataFiles =
      Inr (st\<lparr>originX := p, originY := q, width := r - p, height := s - q\<rparr>)"
    by (simp add: calcBoardSpecs_def)
  moreover have "envelope_spec hdrs = Some (p, q, r - p, s - q)"
    using hd fb fo by (simp add: envelope_spec_def)
  ultimately show ?thesis by blast
qed

lemma two_generations_headers:
  "map read_header (populateIStreamVec two_generations 1) =
     map Inr [((- 1, - 1), (3, 2)), ((0, - 1), (3, 3))]"
  by (simp add: populateIStreamVec_def two_generations_def parse_defs upt_rec)

theorem calcBoardSpecs_envelope_witness:
  "envelope_spec [((- 1, - 1), (3, 2)), ((0, - 1), (3, 3))] = Some (- 1, - 1, 4, 3) \<and>
   calcBoardSpecs unconstructed (populateIStreamVec two_generations 1) =
     Inr (unconstructed\<lparr>originX := - 1, originY := - 1, width := 4, height := 3\<rparr>)"
proof -
  have ne: "populateIStreamVec two_generations 1 \<noteq> []"
    by (simp add: populateIStreamVec_def upt_rec)
  have e: "envelope_spec [((- 1, - 1), (3, 2)), ((0, - 1), (3, 3))] = Some (- 1, - 1, 4, 3)"
    by (simp add: envelope_spec_def frame_box_def box_union_def smin_def smax_def)
  from calcBoardSpecs_envelope [OF ne two_generations_headers, of unconstructed] e
  show ?thesis by auto
qed

section \<open>Header parsing: what fails and what does not\<close>

lemma readPos_alt:
  "readPos firstLine =
     bind_err (substr (posStr_of firstLine) 4 (size_minus (length (posStr_of firstLine)) 4))
       (\<lambda>posStr'.
          bind_err (split posStr' '','' True) (\<lambda>a.
          bind_err (stoi a) (\<lambda>px.
          bind_err (split posStr' '','' False) (\<lambda>b.
          bind_err (stoi b) (\<lambda>py. Inr (px, py))))))"
  by (simp add: readPos_def posStr_of_def posQualifierLen_def split: prod.splits)

lemma readWidthHeight_alt:
  "readWidthHeight secLine =
     bind_err (split (xInfo_of secLine) '','' True) (\<lambda>a.
     bind_err (stoi a) (\<lambda>w.
     bind_err (split (yInfo_of secLine) '','' True) (\<lambda>b.
     bind_err (stoi b) (\<lambda>h. Inr (w, h)))))"
  by (simp add: readWidthHeight_def xInfo_of_def yInfo_of_def split: prod.splits)

lemma is_exception_simps [simp]:
  "is_exception (Inl OutOfRange)" "is_exception (Inl InvalidArgument)"
  "\<not> is_exception (Inl UndefinedBehaviour)" "\<not> is_exception (Inr v)"
  by (simp_all add: is_exception_def)

lemma bind_err_Inl: "bind_err r f = Inl e \<longleftrightarrow> r = Inl e \<or> (\<exists>v. r = Inr v \<and> f v = Inl e)"
  by (cases r) simp_all

lemma substr_no_ub: "substr s p n \<noteq> Inl UndefinedBehaviour"
  by (simp add: substr_def)

lemma split_no_ub: "split s d b \<noteq> Inl UndefinedBehaviour"
  by (simp add: split_def substr_def split: option.splits)

lemma stoi_no_ub: "stoi s \<noteq> Inl UndefinedBehaviour"
  by (simp add: stoi_def Let_def)

lemma readPos_no_ub: "readPos l \<noteq> Inl UndefinedBehaviour"
  by (simp add: readPos_alt bind_err_Inl substr_no_ub split_no_ub stoi_no_ub)

lemma readWidthHeight_no_ub: "readWidthHeight l \<noteq> Inl UndefinedBehaviour"
  by (simp add: readWidthHeight_alt bind_err_Inl split_no_ub stoi_no_ub)

lemma read_header_no_ub: "read_header f \<noteq> Inl UndefinedBehaviour"
  using readPos_no_ub readWidthHeight_no_ub
  by (auto simp: read_header_def split: sum.splits)

lemma stoi_leading_int:
  "stoi a =
     (case leading_int a of
        None \<Rightarrow> Inl InvalidArgument
      | Some v \<Rightarrow> if - (2 ^ 31) \<le> v \<and> v \<le> 2 ^ 31 - 1 then Inr (word_of_int v) else Inl OutOfRange)"
  by (auto simp: stoi_def leading_int_def Let_def)

lemma stoi_begins_with_int:
  "begins_with_int a \<Longrightarrow> \<exists>v. stoi a = Inr v"
  "\<not> begins_with_int a \<Longrightarrow> stoi a = Inl InvalidArgument \<or> stoi a = Inl OutOfRange"
  by (auto simp: stoi_leading_int begins_with_int_def split: option.splits)

lemma two_stoi:
  "is_exception (bind_err (stoi a) (\<lambda>px. bind_err (stoi b) (\<lambda>py. Inr (px, py)))) \<longleftrightarrow>
     \<not> begins_with_int a \<or> \<not> begins_with_int b"
proof (cases "begins_with_int a")
  case False
  from stoi_begins_with_int(2) [OF False] False show ?thesis by auto
next
  case a: True
  then obtain px where px: "stoi a = Inr px" using stoi_begins_with_int(1) by blast
  show ?thesis
  proof (cases "begins_with_int b")
    case False
    from stoi_begins_with_int(2) [OF False] False px show ?thesis by auto
  next
    case True
    then obtain py where "stoi b = Inr py" using stoi_begins_with_int(1) by blast
    with px a True show ?thesis by simp
  qed
qed

lemma readPos_short: "length (posStr_of l) < 4 \<Longrightarrow> readPos l = Inl OutOfRange"
  by (simp add: readPos_alt substr_def)

lemma readPos_fails_iff:
  assumes "4 \<le> length (posStr_of l)"
    and "split (drop 4 (posStr_of l)) '','' True = Inr a"
    and "split (drop 4 (posStr_of l)) '','' False = Inr b"
  shows "is_exception (readPos l) \<longleftrightarrow> \<not> begins_with_int a \<or> \<not> begins_with_int b"
proof -
  have "substr (posStr_of l) 4 (size_minus (length (posStr_of l)) 4) = Inr (drop 4 (posStr_of l))"
    using assms(1) by (simp add: substr_def size_minus_def)
  then have "readPos l = bind_err (stoi a) (\<lambda>px. bind_err (stoi b) (\<lambda>py. Inr (px, py)))"
    using assms(2,3) by (simp add: readPos_alt)
  then show ?thesis by (simp only: two_stoi)
qed

lemma readWidthHeight_fails_iff:
  assumes "split (xInfo_of l) '','' True = Inr a"
    and "split (yInfo_of l) '','' True = Inr b"
  shows "is_exception (readWidthHeight l) \<longleftrightarrow> \<not> begins_with_int a \<or> \<not> begins_with_int b"
proof -
  have "readWidthHeight l = bind_err (stoi a) (\<lambda>w. bind_err (stoi b) (\<lambda>h. Inr (w, h)))"
    using assms by (simp add: readWidthHeight_alt)
  then show ?thesis by (simp only: two_stoi)
qed

lemma read_header_isl:
  "isl (read_header f) \<longleftrightarrow>
     isl (readPos (fst (header_lines f))) \<or> isl (readWidthHeight (fst (snd (header_lines f))))"
  by (auto simp: read_header_def split: sum.splits)

lemma calcBoardSpecs_loop_fails:
  "f \<in> set dataFiles \<Longrightarrow> isl (read_header f) \<Longrightarrow>
   is_exception (calcBoardSpecs_loop dataFiles acc)"
proof (induction dataFiles arbitrary: acc)
  case Nil
  then show ?case by simp
next
  case (Cons g gs)
  show ?case
  proof (cases "read_header g")
    case (Inl e)
    with read_header_no_ub [of g] have "e = OutOfRange \<or> e = InvalidArgument"
      by (cases e) auto
    with Inl show ?thesis by auto
  next
    case (Inr h)
    with Cons.prems have "f \<in> set gs" by auto
    from Cons.IH [OF this Cons.prems(2)] Inr show ?thesis
      by (cases h) simp
  qed
qed

lemma constructor_aborts:
  assumes "f \<in> set (populateIStreamVec dataDir genNum)" and "isl (read_header f)"
  shows "is_exception (ConwayClassifier_new dataDir genNum)"
proof -
  from calcBoardSpecs_loop_fails [OF assms, of None]
  obtain e where "calcBoardSpecs_loop (populateIStreamVec dataDir genNum) None = Inl e"
    and "e = OutOfRange \<or> e = InvalidArgument"
    by (auto simp: is_exception_def split: sum.splits)
  then show ?thesis
    by (auto simp: ConwayClassifier_new_def calcBoardSpecs_def)
qed

text \<open>
  C7 (as amended). A position token of fewer than four characters makes \<^verbatim>\<open>readPos\<close>
  throw \<^verbatim>\<open>std::out_of_range\<close>. Otherwise \<^verbatim>\<open>readPos\<close> and \<^verbatim>\<open>readWidthHeight\<close> throw
  \<^verbatim>\<open>std::invalid_argument\<close> or \<^verbatim>\<open>std::out_of_range\<close>, and yield no value, exactly when
  one of the two texts that \<^verbatim>\<open>split\<close> returns for the expected token does not begin
  with an integer that fits \<^verbatim>\<open>int\<close>; an empty split result is such a text. A header
  that makes \<^verbatim>\<open>readPos\<close> or \<^verbatim>\<open>readWidthHeight\<close> throw, in any of the opened streams,
  makes the constructor end with that kind of exception.
\<close>

theorem header_errors_abort:
  "(length (posStr_of firstLine) < 4 \<longrightarrow> readPos firstLine = Inl OutOfRange) \<and>
   (\<forall>a b. 4 \<le> length (posStr_of firstLine) \<and>
          split (drop 4 (posStr_of firstLine)) '','' True = Inr a \<and>
          split (drop 4 (posStr_of firstLine)) '','' False = Inr b
          \<longrightarrow> (is_exception (readPos firstLine) \<longleftrightarrow>
                \<not> begins_with_int a \<or> \<not> begins_with_int b)) \<and>
   (\<forall>a b. split (xInfo_of secLine) '','' True = Inr a \<and>
          split (yInfo_of secLine) '','' True = Inr b
          \<longrightarrow> (is_exception (readWidthHeight secLine) \<longleftrightarrow>
                \<not> begins_with_int a \<or> \<not> begins_with_int b)) \<and>
   (\<forall>i. i < length (populateIStreamVec dataDir genNum) \<and>
        (isl (readPos (fst (header_lines (populateIStreamVec dataDir genNum ! i)))) \<or>
         isl (readWidthHeight (fst (snd (header_lines (populateIStreamVec dataDir genNum ! i))))))
        \<longrightarrow> is_exception (ConwayClassifier_new dataDir genNum))"
proof (intro conjI allI impI)
  assume "length (posStr_of firstLine) < 4"
  then show "readPos firstLine = Inl OutOfRange" by (rule readPos_short)
next
  fix a b
  assume "4 \<le> length (posStr_of firstLine) \<and>
          split (drop 4 (posStr_of firstLine)) '','' True = Inr a \<and>
          split (drop 4 (posStr_of firstLine)) '','' False = Inr b"
  then show "is_exception (readPos firstLine) \<longleftrightarrow>
               \<not> begins_with_int a \<or> \<not> begins_with_int b"
    using readPos_fails_iff by blast
next
  fix a b
  assume "split (xInfo_of secLine) '','' True = Inr a \<and>
          split (yInfo_of secLine) '','' True = Inr b"
  then show "is_exception (readWidthHeight secLine) \<longleftrightarrow>
               \<not> begins_with_int a \<or> \<not> begins_with_int b"
    using readWidthHeight_fails_iff by blast
next
  fix i
  assume h: "i < length (populateIStreamVec dataDir genNum) \<and>
        (isl (readPos (fst (header_lines (populateIStreamVec dataDir genNum ! i)))) \<or>
         isl (readWidthHeight (fst (snd (header_lines (populateIStreamVec dataDir genNum ! i))))))"
  then have "populateIStreamVec dataDir genNum ! i \<in> set (populateIStreamVec dataDir genNum)"
    by simp
  moreover from h have "isl (read_header (populateIStreamVec dataDir genNum ! i))"
    by (simp add: read_header_isl)
  ultimately show "is_exception (ConwayClassifier_new dataDir genNum)"
    by (rule constructor_aborts)
qed

theorem header_errors_abort_witness:
  "readPos ''#C'' = Inl OutOfRange \<and>
   \<not> begins_with_int [] \<and> readPos ''#CXRLE Gen=5'' = Inl InvalidArgument \<and>
   \<not> begins_with_int ''x7'' \<and> readPos ''#CXRLE Pos=x7,0'' = Inl InvalidArgument \<and>
   \<not> begins_with_int ''abc5'' \<and>
   readWidthHeight ''x = abc5, y = 2, rule = B3/S23'' = Inl InvalidArgument \<and>
   \<not> begins_with_int ''99999999999'' \<and>
   readWidthHeight ''x = 99999999999, y = 2, rule = B3/S23'' = Inl OutOfRange \<and>
   begins_with_int ''-3'' \<and> begins_with_int ''12'' \<and>
   readPos ''#CXRLE Pos=-3,12'' = Inr (- 3, 12) \<and>
   ConwayClassifier_new no_comma_header 0 = Inl InvalidArgument"
  using header_errors_abort [of "''#C''" "''x = abc5, y = 2, rule = B3/S23''" no_comma_header 0]
    header_errors_abort [of "''#CXRLE Gen=5''" "''x = 99999999999, y = 2, rule = B3/S23''" no_comma_header 0]
    header_errors_abort [of "''#CXRLE Pos=x7,0''" "''x = abc5, y = 2, rule = B3/S23''" no_comma_header 0]
    header_errors_abort [of "''#CXRLE Pos=-3,12''" "''x = abc5, y = 2, rule = B3/S23''" no_comma_header 0]
  by (simp add: parse_defs ConwayClassifier_new_def calcBoardSpecs_def populateIStreamVec_def
      no_comma_header_def upt_rec begins_with_int_def leading_int_def)

text \<open>
  C7 as stated fails: a first line without any position token is parsed to the
  position \<open>(0, 0)\<close>, and a second line whose width and height are a digit followed by
  another character is parsed to the dimensions \<open>(0, 0)\<close>; nothing is thrown.
\<close>

theorem header_counterexample:
  "\<not> mentions_pos ''#CXRLE abcd0,0'' \<and> readPos ''#CXRLE abcd0,0'' = Inr (0, 0) \<and>
   readWidthHeight ''x = 0?, y = 0?, rule = B3/S23'' = Inr (0, 0)"
  by (simp add: mentions_pos_def parse_defs)

section \<open>\<^verbatim>\<open>classification\<close>\<close>

lemma missing_file_header: "read_header None = Inl OutOfRange"
  by (simp add: parse_defs)

text \<open>
  C2. The code does not do what the claim says: the constructor sets \<^verbatim>\<open>classNum\<close> to 5
  and nothing changes it, so \<^verbatim>\<open>classification()\<close> returns 5 for every constructed
  classifier, which is none of the three states (1, 2, 3). When one of the requested
  files is missing, the constructor ends with an exception and there is no classifier.
\<close>

theorem classification_is_five:
  "(\<forall>st. ConwayClassifier_new dataDir genNum = Inr st \<longrightarrow> classification st = 5) \<and>
   (\<forall>i. i < length (populateIStreamVec dataDir genNum) \<and> dataDir i = None
        \<longrightarrow> is_exception (ConwayClassifier_new dataDir genNum))"
proof (intro conjI allI impI)
  fix st
  assume "ConwayClassifier_new dataDir genNum = Inr st"
  then show "classification st = 5"
    by (simp add: classification_def constructed_fields)
next
  fix i
  assume h: "i < length (populateIStreamVec dataDir genNum) \<and> dataDir i = None"
  then have "populateIStreamVec dataDir genNum ! i = None"
    by (simp add: populateIStreamVec_def)
  with h have "None \<in> set (populateIStreamVec dataDir genNum)"
    by (metis nth_mem)
  then show "is_exception (ConwayClassifier_new dataDir genNum)"
    by (rule constructor_aborts) (simp add: missing_file_header)
qed

theorem classification_is_five_witness:
  "ConwayClassifier_new two_generations 1 = Inr two_generations_board \<and>
   classification two_generations_board = 5 \<and>
   two_generations 2 = None \<and>
   ConwayClassifier_new two_generations 2 = Inl OutOfRange"
proof -
  have a: "classification two_generations_board = 5"
    using classification_is_five [of two_generations 1] two_generations_classifier by simp
  have l: "2 < length (populateIStreamVec two_generations 2)"
    by (simp add: populateIStreamVec_def)
  have n: "two_generations 2 = None"
    by (simp add: two_generations_def)
  have "is_exception (ConwayClassifier_new two_generations 2)"
    using classification_is_five [of two_generations 2] l n by blast
  moreover have "ConwayClassifier_new two_generations 2 = Inl OutOfRange"
    by (simp add: two_generations_def parse_defs run_defs)
  ultimately show ?thesis
    using a n two_generations_classifier by simp
qed

section \<open>\<^verbatim>\<open>fillBoard\<close>: what the decoder does with a body\<close>

lemma digit_is_no_tag:
  "isdigit_c c \<Longrightarrow> fillBoard_for n st genNum posX c cur = Inr (st, cur)"
proof (induction n)
  case 0
  then show ?case by simp
next
  case (Suc n)
  from Suc.prems have "fillBoard_step st genNum posX c cur = Inr (st, cur)"
    by (auto simp: fillBoard_step_def isdigit_c_def)
  with Suc show ?case by simp
qed

lemma two_digit_count_skipped:
  "isdigit_c c \<Longrightarrow> isdigit_c c' \<Longrightarrow>
   fillBoard_while (c # c' # cs) st genNum posX cur = fillBoard_while cs st genNum posX cur"
  by (simp add: digit_is_no_tag)

lemma end_marker_skipped:
  "fillBoard_while (CHR ''!'' # cs) st genNum posX cur = fillBoard_while cs st genNum posX cur"
  by (cases cs) (simp_all add: isdigit_c_def fillBoard_step_def)

text \<open>
  C1. The code does not do what the claim says: the decoder reads one digit as the
  count and takes the next character as the tag, whatever it is. The body \<^verbatim>\<open>12o!\<close> on
  a board of twelve columns gives one live cell at the cursor, not twelve: the count 1
  is applied to the character \<^verbatim>\<open>2\<close>, which is no tag, and \<^verbatim>\<open>o\<close> is decoded with the
  count 1.
\<close>

theorem run_of_twelve_decoded:
  "ConwayClassifier_new run_of_twelve 0 =
     Inr \<lparr>originX = 0, originY = 0, width = 12, height = 1, classNum = 5,
          gameBoard = [True, False, False, False, False, False,
                       False, False, False, False, False, False],
          boardSize = 12\<rparr>"
  by (simp add: run_of_twelve_def parse_defs run_defs)

text \<open>
  C3. The code does not do what the claim says: \<^verbatim>\<open>!\<close> is a character without effect
  and the loop goes on to the end of the stream. With the body \<^verbatim>\<open>o!bo\<close> the cell at
  \<open>x = 2\<close> is alive, set by the \<^verbatim>\<open>o\<close> that follows the \<^verbatim>\<open>!\<close>.
\<close>

theorem bytes_after_end_decoded:
  "ConwayClassifier_new bytes_after_end 0 =
     Inr \<lparr>originX = 0, originY = 0, width = 3, height = 1, classNum = 5,
          gameBoard = [True, False, True], boardSize = 3\<rparr>"
  by (simp add: bytes_after_end_def parse_defs run_defs)

section \<open>The accessors outside the envelope\<close>

text \<open>
  C4. The code does not do what the claim says: the accessors check nothing. In
  generation 1 of the sample board the coordinate \<open>(-2, 0)\<close> lies left of the envelope
  (whose origin is \<open>(-1, -1)\<close>); \<^verbatim>\<open>getCellVal\<close> returns the value stored for the cell
  \<open>(2, -1)\<close>, and \<^verbatim>\<open>setCellVal\<close> overwrites that cell.
\<close>

theorem accessors_are_unchecked:
  "\<not> valid_triple two_generations_board 2 1 (- 2) 0 \<and>
   getCellVal two_generations_board 1 (- 2) 0 = Inr True \<and>
   getCellVal two_generations_board 1 2 (- 1) = Inr True \<and>
   setCellVal two_generations_board 1 (- 2) 0 False =
     Inr (two_generations_board\<lparr>gameBoard :=
        [False, True, False, False,
         True, True, False, False,
         False, False, False, False,
         False, True, True, False,
         False, False, False, False,
         False, False, True, True]\<rparr>)"
  by (simp add: valid_triple_def getCellVal_def setCellVal_def two_generations_board_def
      get1DIndex_def in_buffer_def)

section \<open>\<^verbatim>\<open>printGameBoard\<close>\<close>

lemma c_rem_one:
  assumes "1 < sint w"
  shows "c_rem 1 w = 1"
proof -
  have "(1 :: int) smod sint w = 1"
    using assms by (simp add: signed_modulo_int_def)
  then show ?thesis by (simp add: c_rem_def)
qed

lemma sint_succ:
  fixes i b :: cint
  assumes "sint i < sint b"
  shows "sint (i + 1) = sint i + 1"
proof -
  have "i + 1 = word_of_int (sint i + 1)" by simp
  moreover have "sint (word_of_int (sint i + 1) :: cint) = sint i + 1"
    using assms sint_lt [of b] sint_ge [of i] by (intro sint_of_int_range) auto
  ultimately show ?thesis by simp
qed

lemma printGameBoard_loop_one_line:
  assumes "1 < sint (width st)"
    and "sint index \<le> sint i" and "0 \<le> sint index"
    and "sint (index + genLen) \<le> int (length (gameBoard st))"
  shows "printGameBoard_loop st index genLen onChar offChar i os =
           Inr (os @ cell_chars onChar offChar
                  (take (nat (sint (index + genLen) - sint i)) (drop (nat (sint i)) (gameBoard st))))"
  using assms
proof (induction st index genLen onChar offChar i os rule: printGameBoard_loop.induct)
  case (1 st index genLen onChar offChar i os)
  show ?case
  proof (cases "i <s index + genLen")
    case False
    then have "sint (index + genLen) - sint i \<le> 0" by (simp add: word_sless_alt)
    with False show ?thesis by (simp add: cell_chars_def)
  next
    case True
    then have lt: "sint i < sint (index + genLen)" by (simp add: word_sless_alt)
    have s1: "sint (i + 1) = sint i + 1" using lt by (rule sint_succ)
    have inb: "in_buffer st i"
      using lt "1.prems" by (simp add: in_buffer_def)
    have w0: "width st \<noteq> 0" using "1.prems"(1) by auto
    have "i + 1 \<noteq> index"
    proof
      assume "i + 1 = index"
      then have "sint (i + 1) = sint index" by simp
      with s1 "1.prems"(2) show False by simp
    qed
    then have nl: "i - index + c_rem 1 (width st) \<noteq> 0"
      using c_rem_one [OF "1.prems"(1)] by (simp add: algebra_simps)
    let ?os1 = "os @ [if gameBoard st ! nat (sint i) then onChar else offChar]"
    have step: "printGameBoard_loop st index genLen onChar offChar i os =
                printGameBoard_loop st index genLen onChar offChar (i + 1) ?os1"
      using True inb w0 nl by (subst printGameBoard_loop.simps) (simp add: Let_def)
    have "printGameBoard_loop st index genLen onChar offChar (i + 1)
             (if i - index + c_rem 1 (width st) = 0 then ?os1 @ [CHR 0x0A] else ?os1) =
           Inr ((if i - index + c_rem 1 (width st) = 0 then ?os1 @ [CHR 0x0A] else ?os1) @
                cell_chars onChar offChar
                  (take (nat (sint (index + genLen) - sint (i + 1)))
                     (drop (nat (sint (i + 1))) (gameBoard st))))"
      using inb w0 "1.prems" s1 by (intro "1.IH" [OF True _ refl refl]) auto
    with nl have ih: "printGameBoard_loop st index genLen onChar offChar (i + 1) ?os1 =
           Inr (?os1 @ cell_chars onChar offChar
                  (take (nat (sint (index + genLen) - sint (i + 1)))
                     (drop (nat (sint (i + 1))) (gameBoard st))))"
      by simp
    have il: "nat (sint i) < length (gameBoard st)"
      using inb by (auto simp: in_buffer_def)
    have n: "nat (sint (index + genLen) - sint i) = Suc (nat (sint (index + genLen) - sint (i + 1)))"
      using lt s1 by simp
    have d: "drop (nat (sint i)) (gameBoard st) =
             gameBoard st ! nat (sint i) # drop (nat (sint (i + 1))) (gameBoard st)"
      using il s1 inb by (simp add: in_buffer_def Cons_nth_drop_Suc nat_add_distrib)
    show ?thesis
      unfolding step ih n d by (simp add: cell_chars_def)
  qed
qed


lemma printGameBoard_one_line:
  assumes "board_allocated st n" and "0 \<le> sint g" and "sint g < n" and "1 < sint (width st)"
  shows "printGameBoard st g onChar offChar =
           Inr (cell_chars onChar offChar
                  (take (nat (sint (width st) * sint (height st)))
                     (drop (nat (sint g * sint (width st) * sint (height st))) (gameBoard st)))
                @ [CHR 0x0A])"
proof -
  let ?W = "sint (width st)" and ?H = "sint (height st)" and ?G = "sint g"
  let ?index = "get1DIndex st g (originX st) (originY st)"
  let ?genLen = "width st * height st"
  from assms(1) have W: "0 < ?W" and H: "0 < ?H" and fit: "n * ?W * ?H < 2 ^ 31"
    and len: "length (gameBoard st) = nat (n * ?W * ?H)"
    by (simp_all add: board_allocated_def)
  have v: "valid_triple st n g (originX st) (originY st)"
    using assms W H by (simp add: valid_triple_def)
  have si: "sint ?index = ?G * ?W * ?H"
    using valid_offset(3) [OF assms(1) v] by (simp add: flat_offset_def)
  have "0 \<le> ?W * ?H" using W H by simp
  moreover have "?G + 1 \<le> n" using assms(3) by simp
  ultimately have "(?G + 1) * (?W * ?H) \<le> n * (?W * ?H)"
    by (rule mult_right_mono [rotated])
  then have up: "?G * ?W * ?H + ?W * ?H \<le> n * ?W * ?H"
    by (simp add: algebra_simps)
  have "0 \<le> ?G * ?W * ?H" using assms(2) W H by simp
  have "?index + ?genLen = word_of_int (?G * ?W * ?H + ?W * ?H)"
  proof -
    have "?index + ?genLen = word_of_int (sint ?index + ?W * ?H)" by simp
    with si show ?thesis by simp
  qed
  moreover have "sint (word_of_int (?G * ?W * ?H + ?W * ?H) :: cint) = ?G * ?W * ?H + ?W * ?H"
    using up fit \<open>0 \<le> ?G * ?W * ?H\<close> \<open>0 \<le> ?W * ?H\<close> by (intro sint_of_int_range) auto
  ultimately have sb: "sint (?index + ?genLen) = ?G * ?W * ?H + ?W * ?H" by simp
  have "printGameBoard_loop st ?index ?genLen onChar offChar ?index [] =
          Inr ([] @ cell_chars onChar offChar
                 (take (nat (sint (?index + ?genLen) - sint ?index))
                    (drop (nat (sint ?index)) (gameBoard st))))"
    using assms(4) si sb up len \<open>0 \<le> ?G * ?W * ?H\<close>
    by (intro printGameBoard_loop_one_line) auto
  then show ?thesis
    by (simp add: printGameBoard_def Let_def si sb)
qed

text \<open>
  C8. The code does not do what the claim says: the test for the end of a row is
  \<open>i - index + (1 % width) = 0\<close>, which never holds for a width above 1. Generation 1 of
  the sample board (four columns, three rows) is printed as its twelve characters on
  one line and one line feed; the claim asks for three rows of four characters, each
  ended by a line feed, and a blank line.
\<close>

theorem rows_are_not_separated:
  "printGameBoard two_generations_board 1 (CHR ''1'') (CHR ''0'') = Inr ''011100000011\<newline>''"
  by (simp add: printGameBoard_def two_generations_board_def get1DIndex_def in_buffer_def
      c_rem_def signed_modulo_int_def word_sless_alt Let_def)

end
